theory Spec2Isabelle
  imports Complex_Main
begin

section \<open>Data model\<close>

text \<open>
  The script \<^verbatim>\<open>scripts/gpx_to_svg.py\<close> works on Python floats. The specification's data
  model declares every coordinate, distance and elevation a real number, and the embedding
  follows it: a float is a \<^typ>\<open>real\<close>, and \<^verbatim>\<open>+ - * /\<close>, \<^verbatim>\<open>sin\<close>, \<^verbatim>\<open>cos\<close>, \<^verbatim>\<open>asin\<close>,
  \<^verbatim>\<open>sqrt\<close> are the exact operations. What Python raises is kept: a result is
  \<open>error + 'a\<close>, with \<open>Inl\<close> for the exception. Three claims turn on the rounding of the
  arithmetic; for them \<^verbatim>\<open>normalize_coordinates\<close> is given a second time, further down,
  with the operations of IEEE 754 binary64 that a Python float has.
\<close>

type_synonym sample = "real \<times> real \<times> real"
  \<comment> \<open>\<open>(lat, lon, ele)\<close>, as built by \<^verbatim>\<open>parse_gpx\<close>\<close>

type_synonym drawing_point = "real \<times> real"
  \<comment> \<open>\<open>(x, y)\<close>\<close>

type_synonym profile_entry = "real \<times> int"
  \<comment> \<open>\<open>(round(cumulative_km, 2), round(ele))\<close>: a float and a Python int\<close>

datatype error = ValueError | ZeroDivisionError | OverflowError
  \<comment> \<open>\<^verbatim>\<open>ValueError\<close>: \<^verbatim>\<open>min\<close>/\<^verbatim>\<open>max\<close> of an empty list, a function of \<^verbatim>\<open>math\<close> outside its
      domain, \<^verbatim>\<open>round\<close> of NaN; \<^verbatim>\<open>ZeroDivisionError\<close>: float division by zero;
      \<^verbatim>\<open>OverflowError\<close>: \<^verbatim>\<open>round\<close> of an infinity, \<^verbatim>\<open>**\<close> out of range\<close>

section \<open>Python built-ins used by the script\<close>

text \<open>\<^verbatim>\<open>min(xs)\<close> and \<^verbatim>\<open>max(xs)\<close> on a list: the first element, replaced by each later
  element that is strictly smaller (greater); \<^verbatim>\<open>ValueError\<close> on the empty list.\<close>

definition py_min :: "real list \<Rightarrow> error + real" where
  "py_min xs = (case xs of [] \<Rightarrow> Inl ValueError
                | x # rest \<Rightarrow> Inr (foldl (\<lambda>m v. if v < m then v else m) x rest))"

definition py_max :: "real list \<Rightarrow> error + real" where
  "py_max xs = (case xs of [] \<Rightarrow> Inl ValueError
                | x # rest \<Rightarrow> Inr (foldl (\<lambda>m v. if v > m then v else m) x rest))"

text \<open>\<^verbatim>\<open>min(a, b)\<close> with two arguments keeps \<open>a\<close> unless \<open>b\<close> is strictly smaller.\<close>

definition py_min2 :: "real \<Rightarrow> real \<Rightarrow> real" where
  "py_min2 a b = (if b < a then b else a)"

text \<open>\<^verbatim>\<open>a / b\<close> on floats raises when \<open>b\<close> is zero.\<close>

definition py_div :: "real \<Rightarrow> real \<Rightarrow> error + real" where
  "py_div a b = (if b = 0 then Inl ZeroDivisionError else Inr (a / b))"

text \<open>\<^verbatim>\<open>round(x)\<close>: the nearest integer, a tie going to the even neighbour.
  \<^verbatim>\<open>round(x, n)\<close>: the same at \<open>n\<close> decimal places.\<close>

definition py_round :: "real \<Rightarrow> int" where
  "py_round x =
     (let f = \<lfloor>x\<rfloor>; r = x - of_int f
      in if r < 1 / 2 then f
         else if 1 / 2 < r then f + 1
         else if even f then f else f + 1)"

definition py_round_ndigits :: "real \<Rightarrow> nat \<Rightarrow> real" where
  "py_round_ndigits x n = of_int (py_round (x * 10 ^ n)) / 10 ^ n"

text \<open>The functions of \<^verbatim>\<open>math\<close>. \<^verbatim>\<open>math.sqrt\<close> raises on a negative argument and
  \<^verbatim>\<open>math.asin\<close> outside \<open>[-1, 1]\<close>.\<close>

definition radians :: "real \<Rightarrow> real" where
  "radians d = d * (pi / 180)"

definition py_sqrt :: "real \<Rightarrow> error + real" where
  "py_sqrt x = (if x < 0 then Inl ValueError else Inr (sqrt x))"

definition py_asin :: "real \<Rightarrow> error + real" where
  "py_asin x = (if x < - 1 \<or> 1 < x then Inl ValueError else Inr (arcsin x))"

section \<open>normalize_coordinates\<close>

definition width :: real where "width = 800"
definition height :: real where "height = 600"
definition margin :: real where "margin = 20"

text \<open>The nested function \<^verbatim>\<open>haversine_km\<close> (Earth radius 6371 km).\<close>

definition haversine_km :: "real \<Rightarrow> real \<Rightarrow> real \<Rightarrow> real \<Rightarrow> error + real" where
  "haversine_km a_lat a_lon b_lat b_lon =
     (let R = 6371;
          dlat = radians (b_lat - a_lat);
          dlon = radians (b_lon - a_lon);
          a = (sin (dlat / 2))\<^sup>2 + cos (radians a_lat) * cos (radians b_lat) * (sin (dlon / 2))\<^sup>2
      in case py_sqrt a of
           Inl e \<Rightarrow> Inl e
         | Inr s \<Rightarrow> (case py_asin s of
                       Inl e \<Rightarrow> Inl e
                     | Inr t \<Rightarrow> Inr (R * (2 * t))))"

text \<open>The variables the \<^verbatim>\<open>for\<close> loop updates.\<close>

record loop_state =
  normalized :: "drawing_point list"
  profile :: "profile_entry list"
  cumulative_km :: real
  prev_lat :: real
  prev_lon :: real

text \<open>One iteration of the loop (lines 92 to 98); \<open>min_lat\<close>, \<open>min_lon\<close> and \<open>scale\<close> are
  the variables of the enclosing function that the body reads.\<close>

fun loop_body :: "real \<Rightarrow> real \<Rightarrow> real \<Rightarrow> loop_state \<Rightarrow> sample \<Rightarrow> error + loop_state" where
  "loop_body min_lat min_lon scale st (lat, lon, ele) =
     (let x = margin + (lon - min_lon) * scale;
          y = height - margin - (lat - min_lat) * scale
      in
      (case haversine_km (prev_lat st) (prev_lon st) lat lon of
         Inl e \<Rightarrow> Inl e
       | Inr d \<Rightarrow>
           (let c = cumulative_km st + d
            in Inr \<lparr>normalized = normalized st @ [(x, y)],
                    profile = profile st @ [(py_round_ndigits c 2, py_round ele)],
                    cumulative_km = c,
                    prev_lat = lat,
                    prev_lon = lon\<rparr>)))"

fun loop :: "real \<Rightarrow> real \<Rightarrow> real \<Rightarrow> loop_state \<Rightarrow> sample list \<Rightarrow> error + loop_state" where
  "loop min_lat min_lon scale st [] = Inr st"
| "loop min_lat min_lon scale st (p # ps) =
     (case loop_body min_lat min_lon scale st p of
        Inl e \<Rightarrow> Inl e
      | Inr st' \<Rightarrow> loop min_lat min_lon scale st' ps)"

definition normalize_coordinates ::
  "sample list \<Rightarrow> error + (drawing_point list \<times> profile_entry list)" where
  "normalize_coordinates points =
     (if points = [] then Inr ([], [])
      else
        let lats = map (\<lambda>p. fst p) points;
            lons = map (\<lambda>p. fst (snd p)) points
        in
        (case py_min lats of Inl e \<Rightarrow> Inl e | Inr min_lat \<Rightarrow>
        (case py_max lats of Inl e \<Rightarrow> Inl e | Inr max_lat \<Rightarrow>
        (case py_min lons of Inl e \<Rightarrow> Inl e | Inr min_lon \<Rightarrow>
        (case py_max lons of Inl e \<Rightarrow> Inl e | Inr max_lon \<Rightarrow>
          let lat_range = max_lat - min_lat;
              lon_range = max_lon - min_lon
          in
          (case (if lat_range > 0 then py_div (height - 2 * margin) lat_range else Inr 1) of
             Inl e \<Rightarrow> Inl e | Inr scale_lat \<Rightarrow>
          (case (if lon_range > 0 then py_div (width - 2 * margin) lon_range else Inr 1) of
             Inl e \<Rightarrow> Inl e | Inr scale_lon \<Rightarrow>
            let scale = py_min2 scale_lat scale_lon;
                st0 = \<lparr>normalized = [], profile = [], cumulative_km = 0,
                       prev_lat = fst (hd points), prev_lon = fst (snd (hd points))\<rparr>
            in
            (case loop min_lat min_lon scale st0 points of
               Inl e \<Rightarrow> Inl e
             | Inr st \<Rightarrow> Inr (normalized st, profile st)))))))))"

section \<open>create_svg\<close>

text \<open>\<^verbatim>\<open>str(n)\<close> for a natural number, and the format \<^verbatim>\<open>{x:.2f}\<close>: a minus sign for a
  negative number, the magnitude rounded to two decimals (ties to even), at least one
  digit before the point and exactly two after it.\<close>

definition digit_char :: "nat \<Rightarrow> char" where
  "digit_char d = ''0123456789'' ! d"

fun str_nat :: "nat \<Rightarrow> string" where
  "str_nat n = (if n < 10 then [digit_char n] else str_nat (n div 10) @ [digit_char (n mod 10)])"

declare str_nat.simps [simp del]

definition format_2f :: "real \<Rightarrow> string" where
  "format_2f x =
     (let n = nat (py_round (\<bar>x\<bar> * 100))
      in (if x < 0 then ''-'' else '''') @ str_nat (n div 100) @ ''.''
         @ [digit_char (n mod 100 div 10), digit_char (n mod 10)])"

text \<open>\<^verbatim>\<open>sep.join(strs)\<close>.\<close>

fun join :: "string \<Rightarrow> string list \<Rightarrow> string" where
  "join sep [] = []"
| "join sep [s] = s"
| "join sep (s # t # ts) = s @ sep @ join sep (t # ts)"

text \<open>Line 113: the path data of the polyline. \<open>format_point\<close> is the f-string
  \<^verbatim>\<open>f"{x:.2f},{y:.2f}"\<close> of the comprehension.\<close>

fun format_point :: "drawing_point \<Rightarrow> string" where
  "format_point (x, y) = format_2f x @ '','' @ format_2f y"

definition path_data :: "drawing_point list \<Rightarrow> string" where
  "path_data points = ''M '' @ join '' L '' (map format_point points)"

text \<open>Lines 115 to 118: the document written to the output file.\<close>

definition svg_content :: "drawing_point list \<Rightarrow> string" where
  \<open>svg_content points =
     ''<?xml version="1.0" encoding="UTF-8"?>'' @ [CHR 0x0A]
     @ ''<svg viewBox="0 0 '' @ str_nat 800 @ '' '' @ str_nat 600
     @ ''" xmlns="http://www.w3.org/2000/svg">'' @ [CHR 0x0A]
     @ ''  <path d="'' @ path_data points
     @ ''" fill="none" stroke="#d4df00" stroke-width="2" stroke-linecap="round" stroke-linejoin="round"/>''
     @ [CHR 0x0A] @ ''</svg>''\<close>

text \<open>What \<^verbatim>\<open>create_svg\<close> does: the lines it prints and the file it writes. With no
  point it prints one message and returns before anything is written. The side file with
  the profile, written for debugging inside a \<^verbatim>\<open>try\<close> that ignores every failure, is
  not part of the model.\<close>

record svg_effects =
  printed :: "string list"
  written :: "(string \<times> string) option"

definition create_svg :: "drawing_point list \<Rightarrow> string \<Rightarrow> profile_entry list \<Rightarrow> svg_effects" where
  "create_svg points output_file prof =
     (if points = [] then
        \<lparr>printed = [''Aucun point trouv'' @ [CHR 0xC3, CHR 0xA9] @ '' dans le fichier GPX''],
         written = None\<rparr>
      else
        \<lparr>printed = [''SVG cr'' @ [CHR 0xC3, CHR 0xA9, CHR 0xC3, CHR 0xA9] @ '' avec succ''
                      @ [CHR 0xC3, CHR 0xA8] @ ''s: '' @ output_file,
                    ''Nombre de points: '' @ str_nat (length points)],
         written = Some (output_file, svg_content points)\<rparr>)"

section \<open>Closed forms\<close>

text \<open>The components of a sample, and what the loop computes written without the loop:
  the drawing point of one sample, the great-circle distance that \<^verbatim>\<open>haversine_km\<close>
  returns, the profile entries from a given accumulator and previous sample, the scale
  from the bounding box, and the accumulator after sample \<open>i\<close>.\<close>

definition hav_arg :: "real \<Rightarrow> real \<Rightarrow> real \<Rightarrow> real \<Rightarrow> real" where
  "hav_arg a_lat a_lon b_lat b_lon =
     (sin (radians (b_lat - a_lat) / 2))\<^sup>2
     + cos (radians a_lat) * cos (radians b_lat) * (sin (radians (b_lon - a_lon) / 2))\<^sup>2"

definition great_circle_km :: "real \<Rightarrow> real \<Rightarrow> real \<Rightarrow> real \<Rightarrow> real" where
  "great_circle_km a_lat a_lon b_lat b_lon =
     6371 * (2 * arcsin (sqrt (hav_arg a_lat a_lon b_lat b_lon)))"

definition lat_of :: "sample \<Rightarrow> real" where "lat_of p = fst p"
definition lon_of :: "sample \<Rightarrow> real" where "lon_of p = fst (snd p)"
definition ele_of :: "sample \<Rightarrow> real" where "ele_of p = snd (snd p)"

definition project :: "real \<Rightarrow> real \<Rightarrow> real \<Rightarrow> sample \<Rightarrow> drawing_point" where
  "project min_lat min_lon scale p =
     (margin + (lon_of p - min_lon) * scale, height - margin - (lat_of p - min_lat) * scale)"

fun entries :: "real \<Rightarrow> real \<Rightarrow> real \<Rightarrow> sample list \<Rightarrow> profile_entry list" where
  "entries c plat plon [] = []"
| "entries c plat plon (p # ps) =
     (py_round_ndigits (c + great_circle_km plat plon (lat_of p) (lon_of p)) 2, py_round (ele_of p))
     # entries (c + great_circle_km plat plon (lat_of p) (lon_of p)) (lat_of p) (lon_of p) ps"

definition scale_of :: "sample list \<Rightarrow> real" where
  "scale_of points =
     (let lat_range = Max (set (map lat_of points)) - Min (set (map lat_of points));
          lon_range = Max (set (map lon_of points)) - Min (set (map lon_of points));
          scale_lat = (if lat_range > 0 then (height - 2 * margin) / lat_range else 1);
          scale_lon = (if lon_range > 0 then (width - 2 * margin) / lon_range else 1)
      in min scale_lat scale_lon)"

fun accumulated :: "sample list \<Rightarrow> nat \<Rightarrow> real" where
  "accumulated ps 0 =
     0 + great_circle_km (lat_of (ps ! 0)) (lon_of (ps ! 0)) (lat_of (ps ! 0)) (lon_of (ps ! 0))"
| "accumulated ps (Suc i) =
     accumulated ps i
     + great_circle_km (lat_of (ps ! i)) (lon_of (ps ! i)) (lat_of (ps ! Suc i)) (lon_of (ps ! Suc i))"

definition leg :: "sample list \<Rightarrow> nat \<Rightarrow> real" where
  "leg ps k = great_circle_km (lat_of (ps ! k)) (lon_of (ps ! k)) (lat_of (ps ! Suc k)) (lon_of (ps ! Suc k))"

text \<open>Reading a string of decimal digits back as a number.\<close>

definition digit_value :: "char \<Rightarrow> nat" where
  "digit_value c = of_char c - 48"

definition decimal_value :: "string \<Rightarrow> nat" where
  "decimal_value s = foldl (\<lambda>a c. 10 * a + digit_value c) 0 s"

section \<open>normalize_coordinates in binary64 arithmetic\<close>

text \<open>
  A Python float is an IEEE 754 binary64 number, and \<^verbatim>\<open>+ - * /\<close> and \<^verbatim>\<open>math.sqrt\<close>
  return the double nearest to the exact result, a tie going to the even mantissa. This
  section models exactly that, on integers, so that the function can be evaluated on
  given doubles. The sign of a zero is not kept: nothing computed here depends on it.
\<close>

datatype f64 = Finite int int | PosInf | NegInf | NaN
  \<comment> \<open>\<open>Finite m e\<close> is the number \<open>m * 2 ^ e\<close>; the operations below return it with \<open>m\<close>
      odd, or as \<open>Finite 0 0\<close>\<close>

text \<open>\<open>bit_length\<close> is the number of binary digits; \<open>strip_zeros\<close> moves the factors 2 of a
  mantissa into the exponent.\<close>

fun bit_length :: "nat \<Rightarrow> nat" where
  "bit_length n = (if n = 0 then 0 else Suc (bit_length (n div 2)))"

declare bit_length.simps [simp del]

fun strip_zeros :: "nat \<Rightarrow> int \<Rightarrow> nat \<times> int" where
  "strip_zeros m e = (if m = 0 \<or> odd m then (m, e) else strip_zeros (m div 2) (e + 1))"

declare strip_zeros.simps [simp del]

definition canonical :: "int \<Rightarrow> int \<Rightarrow> f64" where
  "canonical m e =
     (if m = 0 then Finite 0 0
      else case strip_zeros (nat \<bar>m\<bar>) e of (n, t) \<Rightarrow> Finite (sgn m * int n) t)"

text \<open>Rounding the quotient \<open>a / b\<close> of two positive integers to the nearest integer, a tie
  going to the even one, and \<open>floor_log2_ratio a b\<close>, the \<open>d\<close> with
  \<open>2 ^ d \<le> a / b < 2 ^ (d + 1)\<close>.\<close>

definition shift_left :: "nat \<Rightarrow> int \<Rightarrow> nat" where
  "shift_left a k = (if 0 < k then a * 2 ^ nat k else a)"

definition round_half_even_ratio :: "nat \<Rightarrow> nat \<Rightarrow> nat" where
  "round_half_even_ratio a b =
     (if 2 * (a mod b) < b then a div b
      else if b < 2 * (a mod b) then a div b + 1
      else if even (a div b) then a div b else a div b + 1)"

definition floor_log2_ratio :: "nat \<Rightarrow> nat \<Rightarrow> int" where
  "floor_log2_ratio a b =
     (if shift_left b (int (bit_length a) - int (bit_length b))
           \<le> shift_left a (int (bit_length b) - int (bit_length a))
      then int (bit_length a) - int (bit_length b)
      else int (bit_length a) - int (bit_length b) - 1)"

text \<open>\<open>round_f64 p q s\<close> is the double nearest to \<open>p / q * 2 ^ s\<close> (for \<open>q > 0\<close>), a tie going
  to the even mantissa. Doubles have 53 binary digits, so in the binade of exponent \<open>d\<close>
  they are the multiples of \<open>2 ^ (d - 52)\<close>; below \<open>2 ^ (- 1022)\<close> they are the multiples of
  \<open>2 ^ (- 1074)\<close>; a result of magnitude \<open>2 ^ 1024\<close> or more is an infinity.\<close>

definition quantum :: "nat \<Rightarrow> nat \<Rightarrow> int \<Rightarrow> int" where
  "quantum a b s = max (floor_log2_ratio a b + s) (- 1022) - 52"

definition round_at :: "int \<Rightarrow> nat \<Rightarrow> nat \<Rightarrow> int \<Rightarrow> int \<Rightarrow> f64" where
  "round_at sign a b s t =
     (if 1024 < int (bit_length (round_half_even_ratio (shift_left a (s - t)) (shift_left b (t - s)))) + t
      then (if 0 < sign then PosInf else NegInf)
      else canonical (sign * int (round_half_even_ratio (shift_left a (s - t)) (shift_left b (t - s)))) t)"

definition round_f64 :: "int \<Rightarrow> int \<Rightarrow> int \<Rightarrow> f64" where
  "round_f64 p q s =
     (if p = 0 then Finite 0 0
      else round_at (sgn p) (nat \<bar>p\<bar>) (nat q) s (quantum (nat \<bar>p\<bar>) (nat q) s))"

text \<open>The operations. A Python int that meets a float is converted first
  (\<open>f64_of_int\<close>); \<^verbatim>\<open>/\<close> raises on a zero divisor before anything else; a comparison
  with NaN is false.\<close>

definition f64_of_int :: "int \<Rightarrow> f64" where
  "f64_of_int n = round_f64 n 1 0"

definition aligned :: "int \<Rightarrow> int \<Rightarrow> int \<Rightarrow> int" where
  "aligned m e e' = m * 2 ^ nat (e - min e e')"

fun f64_neg :: "f64 \<Rightarrow> f64" where
  "f64_neg (Finite m e) = Finite (- m) e"
| "f64_neg PosInf = NegInf"
| "f64_neg NegInf = PosInf"
| "f64_neg NaN = NaN"

fun f64_add :: "f64 \<Rightarrow> f64 \<Rightarrow> f64" where
  "f64_add (Finite m1 e1) (Finite m2 e2) =
     round_f64 (aligned m1 e1 e2 + aligned m2 e2 e1) 1 (min e1 e2)"
| "f64_add NaN _ = NaN"
| "f64_add _ NaN = NaN"
| "f64_add PosInf NegInf = NaN"
| "f64_add NegInf PosInf = NaN"
| "f64_add PosInf _ = PosInf"
| "f64_add NegInf _ = NegInf"
| "f64_add _ PosInf = PosInf"
| "f64_add _ NegInf = NegInf"

definition f64_sub :: "f64 \<Rightarrow> f64 \<Rightarrow> f64" where
  "f64_sub a b = f64_add a (f64_neg b)"

fun f64_sign :: "f64 \<Rightarrow> int" where
  "f64_sign (Finite m e) = sgn m"
| "f64_sign PosInf = 1"
| "f64_sign NegInf = - 1"
| "f64_sign NaN = 0"

fun f64_mul :: "f64 \<Rightarrow> f64 \<Rightarrow> f64" where
  "f64_mul (Finite m1 e1) (Finite m2 e2) = round_f64 (m1 * m2) 1 (e1 + e2)"
| "f64_mul NaN _ = NaN"
| "f64_mul _ NaN = NaN"
| "f64_mul a b =
     (if f64_sign a * f64_sign b = 0 then NaN
      else if 0 < f64_sign a * f64_sign b then PosInf else NegInf)"

fun f64_div :: "f64 \<Rightarrow> f64 \<Rightarrow> error + f64" where
  "f64_div a (Finite m2 e2) =
     (if m2 = 0 then Inl ZeroDivisionError
      else case a of
        Finite m1 e1 \<Rightarrow> Inr (round_f64 (sgn m2 * m1) \<bar>m2\<bar> (e1 - e2))
      | NaN \<Rightarrow> Inr NaN
      | _ \<Rightarrow> Inr (if 0 < f64_sign a * sgn m2 then PosInf else NegInf))"
| "f64_div NaN _ = Inr NaN"
| "f64_div _ NaN = Inr NaN"
| "f64_div (Finite m1 e1) _ = Inr (Finite 0 0)"
| "f64_div _ _ = Inr NaN"

fun f64_lt :: "f64 \<Rightarrow> f64 \<Rightarrow> bool" where
  "f64_lt (Finite m1 e1) (Finite m2 e2) = (aligned m1 e1 e2 < aligned m2 e2 e1)"
| "f64_lt NaN _ = False"
| "f64_lt _ NaN = False"
| "f64_lt NegInf b = (b \<noteq> NegInf)"
| "f64_lt a PosInf = (a \<noteq> PosInf)"
| "f64_lt _ _ = False"

text \<open>\<^verbatim>\<open>math.sqrt\<close> is the square root of IEEE 754, correctly rounded: \<open>isqrt\<close> is the
  integer square root, taken of the argument scaled by an even power of two so that the
  root has more than 53 digits, with one more digit telling whether the root is exact.\<close>

definition pick_root :: "nat \<Rightarrow> nat \<Rightarrow> nat" where
  "pick_root r n = (if (r + 1) * (r + 1) \<le> n then r + 1 else r)"

fun isqrt :: "nat \<Rightarrow> nat" where
  "isqrt n = (if n < 2 then n else pick_root (2 * isqrt (n div 4)) n)"

declare isqrt.simps [simp del]

definition sticky :: "nat \<Rightarrow> nat \<Rightarrow> nat" where
  "sticky r n = (if r * r = n then 2 * r else 2 * r + 1)"

definition sqrt_scaled :: "nat \<Rightarrow> int \<Rightarrow> f64" where
  "sqrt_scaled n k = round_f64 (int (sticky (isqrt n) n)) 1 (- k - 1)"

fun f64_sqrt :: "f64 \<Rightarrow> error + f64" where
  "f64_sqrt (Finite m e) =
     (if m < 0 then Inl ValueError
      else Inr (sqrt_scaled (nat m * 2 ^ nat (e + 2 * (56 - e div 2))) (56 - e div 2)))"
| "f64_sqrt PosInf = Inr PosInf"
| "f64_sqrt NegInf = Inl ValueError"
| "f64_sqrt NaN = Inr NaN"

text \<open>\<^verbatim>\<open>round(x)\<close> and \<^verbatim>\<open>round(x, n)\<close> on a float: the exact value of the double is
  rounded, a tie going to the even neighbour; \<^verbatim>\<open>round(x)\<close> raises on NaN and on an
  infinity, \<^verbatim>\<open>round(x, n)\<close> returns the double nearest to the decimal result.\<close>

definition round_half_even_int :: "int \<Rightarrow> nat \<Rightarrow> int" where
  "round_half_even_int p q = sgn p * int (round_half_even_ratio (nat \<bar>p\<bar>) q)"

fun py_round_f64 :: "f64 \<Rightarrow> error + int" where
  "py_round_f64 (Finite m e) =
     Inr (if 0 \<le> e then m * 2 ^ nat e else round_half_even_int m (2 ^ nat (- e)))"
| "py_round_f64 NaN = Inl ValueError"
| "py_round_f64 _ = Inl OverflowError"

fun py_round_ndigits_f64 :: "f64 \<Rightarrow> nat \<Rightarrow> f64" where
  "py_round_ndigits_f64 (Finite m e) n =
     round_f64 (if 0 \<le> e then m * 2 ^ nat e * 10 ^ n
                else round_half_even_int (m * 10 ^ n) (2 ^ nat (- e))) (10 ^ n) 0"
| "py_round_ndigits_f64 x n = x"

text \<open>\<^verbatim>\<open>sin\<close>, \<^verbatim>\<open>cos\<close>, \<^verbatim>\<open>asin\<close> and \<^verbatim>\<open>pow\<close> come from the C library, and IEEE 754
  does not fix their rounding: they are parameters. \<open>math_1\<close> is the wrapper CPython
  puts around a function of \<^verbatim>\<open>math\<close>: a NaN result for an argument that is a number,
  or an infinite result for a finite argument, is a \<^verbatim>\<open>ValueError\<close>. \<open>float_pow\<close> is
  \<^verbatim>\<open>x ** y\<close> on floats as far as line 86 needs it: an infinite result for finite
  arguments is an \<^verbatim>\<open>OverflowError\<close>. \<^verbatim>\<open>math.radians(x)\<close> is \<^verbatim>\<open>x * (M_PI / 180.0)\<close>
  with \<^verbatim>\<open>M_PI\<close> the literal \<^verbatim>\<open>3.14159265358979323846\<close>.\<close>

record libm =
  libm_sin :: "f64 \<Rightarrow> f64"
  libm_cos :: "f64 \<Rightarrow> f64"
  libm_asin :: "f64 \<Rightarrow> f64"
  libm_pow :: "f64 \<Rightarrow> f64 \<Rightarrow> f64"

definition bind_err :: "error + 'a \<Rightarrow> ('a \<Rightarrow> error + 'b) \<Rightarrow> error + 'b" where
  "bind_err r f = (case r of Inl e \<Rightarrow> Inl e | Inr v \<Rightarrow> f v)"

fun is_finite :: "f64 \<Rightarrow> bool" where
  "is_finite (Finite m e) = True"
| "is_finite _ = False"

definition is_inf :: "f64 \<Rightarrow> bool" where
  "is_inf x = (x = PosInf \<or> x = NegInf)"

definition math_1 :: "(f64 \<Rightarrow> f64) \<Rightarrow> f64 \<Rightarrow> error + f64" where
  "math_1 func x =
     (if func x = NaN \<and> x \<noteq> NaN then Inl ValueError
      else if is_inf (func x) \<and> is_finite x then Inl ValueError
      else Inr (func x))"

definition float_pow :: "libm \<Rightarrow> f64 \<Rightarrow> f64 \<Rightarrow> error + f64" where
  "float_pow L x y =
     (if is_finite x \<and> is_finite y \<and> is_inf (libm_pow L x y) then Inl OverflowError
      else Inr (libm_pow L x y))"

definition M_PI :: f64 where
  "M_PI = round_f64 314159265358979323846 (10 ^ 20) 0"

definition degToRad :: "error + f64" where
  "degToRad = f64_div M_PI (f64_of_int 180)"

definition radians_f64 :: "f64 \<Rightarrow> error + f64" where
  "radians_f64 x = bind_err degToRad (\<lambda>k. Inr (f64_mul x k))"

text \<open>The nested function \<^verbatim>\<open>haversine_km\<close>, in the order Python evaluates line 86.\<close>

definition haversine_km_f64 :: "libm \<Rightarrow> f64 \<Rightarrow> f64 \<Rightarrow> f64 \<Rightarrow> f64 \<Rightarrow> error + f64" where
  "haversine_km_f64 L a_lat a_lon b_lat b_lon =
     bind_err (radians_f64 (f64_sub b_lat a_lat)) (\<lambda>dlat.
     bind_err (radians_f64 (f64_sub b_lon a_lon)) (\<lambda>dlon.
     bind_err (f64_div dlat (f64_of_int 2)) (\<lambda>half_dlat.
     bind_err (math_1 (libm_sin L) half_dlat) (\<lambda>s1.
     bind_err (float_pow L s1 (f64_of_int 2)) (\<lambda>sq1.
     bind_err (radians_f64 a_lat) (\<lambda>ra.
     bind_err (math_1 (libm_cos L) ra) (\<lambda>c1.
     bind_err (radians_f64 b_lat) (\<lambda>rb.
     bind_err (math_1 (libm_cos L) rb) (\<lambda>c2.
     bind_err (f64_div dlon (f64_of_int 2)) (\<lambda>half_dlon.
     bind_err (math_1 (libm_sin L) half_dlon) (\<lambda>s2.
     bind_err (float_pow L s2 (f64_of_int 2)) (\<lambda>sq2.
     bind_err (f64_sqrt (f64_add sq1 (f64_mul (f64_mul c1 c2) sq2))) (\<lambda>root.
     bind_err (math_1 (libm_asin L) root) (\<lambda>t.
     Inr (f64_mul (f64_of_int 6371) (f64_mul (f64_of_int 2) t))))))))))))))))"

text \<open>Lines 59 to 74 give the frame: \<open>min_lat\<close>, \<open>min_lon\<close> and \<open>scale\<close>. \<open>point_f64\<close>
  is lines 92 and 93.\<close>

definition py_min_f64 :: "f64 list \<Rightarrow> error + f64" where
  "py_min_f64 xs = (case xs of [] \<Rightarrow> Inl ValueError
                    | x # rest \<Rightarrow> Inr (foldl (\<lambda>m v. if f64_lt v m then v else m) x rest))"

definition py_max_f64 :: "f64 list \<Rightarrow> error + f64" where
  "py_max_f64 xs = (case xs of [] \<Rightarrow> Inl ValueError
                    | x # rest \<Rightarrow> Inr (foldl (\<lambda>m v. if f64_lt m v then v else m) x rest))"

definition py_min2_f64 :: "f64 \<Rightarrow> f64 \<Rightarrow> f64" where
  "py_min2_f64 a b = (if f64_lt b a then b else a)"

fun point_f64 :: "f64 \<Rightarrow> f64 \<Rightarrow> f64 \<Rightarrow> f64 \<times> f64 \<times> f64 \<Rightarrow> f64 \<times> f64" where
  "point_f64 min_lat min_lon scale (lat, lon, ele) =
     (f64_add (f64_of_int 20) (f64_mul (f64_sub lon min_lon) scale),
      f64_sub (f64_of_int (600 - 20)) (f64_mul (f64_sub lat min_lat) scale))"

type_synonym sample_f64 = "f64 \<times> f64 \<times> f64"

definition frame_f64 :: "sample_f64 list \<Rightarrow> error + (f64 \<times> f64 \<times> f64)" where
  "frame_f64 points =
     bind_err (py_min_f64 (map (\<lambda>p. fst p) points)) (\<lambda>min_lat.
     bind_err (py_max_f64 (map (\<lambda>p. fst p) points)) (\<lambda>max_lat.
     bind_err (py_min_f64 (map (\<lambda>p. fst (snd p)) points)) (\<lambda>min_lon.
     bind_err (py_max_f64 (map (\<lambda>p. fst (snd p)) points)) (\<lambda>max_lon.
     bind_err (if f64_lt (f64_of_int 0) (f64_sub max_lat min_lat)
               then f64_div (f64_of_int (600 - 2 * 20)) (f64_sub max_lat min_lat)
               else Inr (f64_of_int 1)) (\<lambda>scale_lat.
     bind_err (if f64_lt (f64_of_int 0) (f64_sub max_lon min_lon)
               then f64_div (f64_of_int (800 - 2 * 20)) (f64_sub max_lon min_lon)
               else Inr (f64_of_int 1)) (\<lambda>scale_lon.
     Inr (min_lat, min_lon, py_min2_f64 scale_lat scale_lon)))))))"

text \<open>\<open>points_f64\<close> is the list \<^verbatim>\<open>normalized\<close> alone, which no function of the C
  library touches; \<open>normalize_coordinates_f64\<close> is the whole function.\<close>

definition points_f64 :: "sample_f64 list \<Rightarrow> error + (f64 \<times> f64) list" where
  "points_f64 points =
     (if points = [] then Inr []
      else bind_err (frame_f64 points) (\<lambda>(min_lat, min_lon, scale).
             Inr (map (point_f64 min_lat min_lon scale) points)))"

record loop_state_f64 =
  normalized_f :: "(f64 \<times> f64) list"
  profile_f :: "(f64 \<times> int) list"
  cumulative_km_f :: f64
  prev_lat_f :: f64
  prev_lon_f :: f64

fun loop_body_f64 ::
  "libm \<Rightarrow> f64 \<Rightarrow> f64 \<Rightarrow> f64 \<Rightarrow> loop_state_f64 \<Rightarrow> sample_f64 \<Rightarrow> error + loop_state_f64" where
  "loop_body_f64 L min_lat min_lon scale st (lat, lon, ele) =
     bind_err (haversine_km_f64 L (prev_lat_f st) (prev_lon_f st) lat lon) (\<lambda>d.
     bind_err (py_round_f64 ele) (\<lambda>r.
     Inr \<lparr>normalized_f = normalized_f st @ [point_f64 min_lat min_lon scale (lat, lon, ele)],
          profile_f = profile_f st @ [(py_round_ndigits_f64 (f64_add (cumulative_km_f st) d) 2, r)],
          cumulative_km_f = f64_add (cumulative_km_f st) d,
          prev_lat_f = lat,
          prev_lon_f = lon\<rparr>))"

fun loop_f64 ::
  "libm \<Rightarrow> f64 \<Rightarrow> f64 \<Rightarrow> f64 \<Rightarrow> loop_state_f64 \<Rightarrow> sample_f64 list \<Rightarrow> error + loop_state_f64" where
  "loop_f64 L min_lat min_lon scale st [] = Inr st"
| "loop_f64 L min_lat min_lon scale st (p # ps) =
     bind_err (loop_body_f64 L min_lat min_lon scale st p) (\<lambda>st'.
       loop_f64 L min_lat min_lon scale st' ps)"

definition normalize_coordinates_f64 ::
  "libm \<Rightarrow> sample_f64 list \<Rightarrow> error + ((f64 \<times> f64) list \<times> (f64 \<times> int) list)" where
  "normalize_coordinates_f64 L points =
     (if points = [] then Inr ([], [])
      else bind_err (frame_f64 points) (\<lambda>(min_lat, min_lon, scale).
           bind_err (loop_f64 L min_lat min_lon scale
                       \<lparr>normalized_f = [], profile_f = [], cumulative_km_f = f64_of_int 0,
                        prev_lat_f = fst (hd points), prev_lon_f = fst (snd (hd points))\<rparr> points)
             (\<lambda>st. Inr (normalized_f st, profile_f st))))"

text \<open>The C library at the arguments that the two samples of the claim on index
  alignment lead to: \<open>sin\<close> and \<open>cos\<close> return the double nearest to the exact value there
  (as glibc does), \<open>pow (x, 2)\<close> the rounded square, and \<open>asin\<close> of a number above 1 is
  NaN. No other argument is used.\<close>

definition libm_near_antipodes :: libm where
  "libm_near_antipodes =
     \<lparr>libm_sin = (\<lambda>x. if x = Finite 1189073597418791 (- 50) then Finite 7840288962597725 (- 53)
                       else if x = Finite 884279719003555 (- 49) then Finite 1 0
                       else Finite 0 0),
      libm_cos = (\<lambda>x. if x = Finite (- 4756294393605295) (- 52) then Finite 8867808598949789 (- 54)
                       else if x = Finite 4756294385745031 (- 52) then Finite 1108476078289695 (- 51)
                       else Finite 1 0),
      libm_asin = (\<lambda>x. if x = Finite 0 0 then Finite 0 0 else NaN),
      libm_pow = (\<lambda>x y. f64_mul x x)\<rparr>"

section \<open>The built-ins on the values the script gives them\<close>

lemma foldl_min: "foldl (\<lambda>m v. if v < m then v else m) (x::real) rest = Min (set (x # rest))"
proof -
  have h: "(\<lambda>(v::real) m. if v < m then v else m) = min"
    by (auto simp: fun_eq_iff)
  show ?thesis
    unfolding Min.set_eq_fold foldl_conv_fold h ..
qed

lemma foldl_max: "foldl (\<lambda>m v. if v > m then v else m) (x::real) rest = Max (set (x # rest))"
proof -
  have h: "(\<lambda>(v::real) m. if v > m then v else m) = max"
    by (auto simp: fun_eq_iff)
  show ?thesis
    unfolding Max.set_eq_fold foldl_conv_fold h ..
qed

lemma py_min_eq: "xs \<noteq> [] \<Longrightarrow> py_min xs = Inr (Min (set xs))"
  by (cases xs) (simp_all add: py_min_def foldl_min del: set_simps)

lemma py_max_eq: "xs \<noteq> [] \<Longrightarrow> py_max xs = Inr (Max (set xs))"
  by (cases xs) (simp_all add: py_max_def foldl_max del: set_simps)

lemma hav_bounds:
  fixes p q d :: real
  defines "a \<equiv> (sin ((q - p) / 2))\<^sup>2 + cos p * cos q * (sin (d / 2))\<^sup>2"
  shows "0 \<le> a \<and> a \<le> 1"
proof -
  define s where "s = (sin (d / 2))\<^sup>2"
  define C where "C = cos (q - p)"
  define D where "D = cos (p + q)"
  have s0: "0 \<le> s" and s1: "s \<le> 1"
    unfolding s_def by (simp_all add: abs_square_le_1)
  have C: "- 1 \<le> C" "C \<le> 1" and D: "- 1 \<le> D" "D \<le> 1"
    unfolding C_def D_def by simp_all
  have "cos (2 * ((q - p) / 2)) = 1 - 2 * (sin ((q - p) / 2))\<^sup>2"
    by (rule cos_double_sin)
  moreover have "2 * ((q - p) / 2) = q - p"
    by simp
  ultimately have "cos (q - p) = 1 - 2 * (sin ((q - p) / 2))\<^sup>2"
    by (simp only:)
  then have e1: "(sin ((q - p) / 2))\<^sup>2 = (1 - C) / 2"
    by (simp add: C_def)
  have "cos (p - q) = C"
    using cos_minus [of "q - p"] by (simp add: C_def)
  then have e2: "cos p * cos q = (C + D) / 2"
    by (simp add: cos_times_cos D_def)
  have a: "a = (1 - s) * ((1 - C) / 2) + s * ((1 + D) / 2)"
    unfolding a_def e1 e2 s_def [symmetric] by (simp add: field_simps)
  have t1: "0 \<le> (1 - s) * ((1 - C) / 2)" and t2: "0 \<le> s * ((1 + D) / 2)"
    using s0 s1 C D by simp_all
  have u1: "(1 - s) * ((1 - C) / 2) \<le> (1 - s) * 1"
    using s1 C by (intro mult_left_mono) simp_all
  have u2: "s * ((1 + D) / 2) \<le> s * 1"
    using s0 D by (intro mult_left_mono) simp_all
  show ?thesis
    using a t1 t2 u1 u2 by simp
qed

lemma hav_arg_bounds: "0 \<le> hav_arg a b c d" "hav_arg a b c d \<le> 1"
  using hav_bounds [of "radians c" "radians a" "radians (d - b)"]
  by (simp_all add: hav_arg_def radians_def algebra_simps diff_divide_distrib)

lemma haversine_km_eq: "haversine_km a b c d = Inr (great_circle_km a b c d)"
proof -
  have "\<not> sqrt (hav_arg a b c d) < - 1" "\<not> 1 < sqrt (hav_arg a b c d)"
    using hav_arg_bounds [of a b c d] by (simp_all add: not_less order_trans [of "- 1" 0])
  then show ?thesis
    using hav_arg_bounds [of a b c d]
    by (simp add: haversine_km_def Let_def py_sqrt_def py_asin_def great_circle_km_def
        hav_arg_def [symmetric])
qed



lemma py_round_mono: "x \<le> y \<Longrightarrow> py_round x \<le> py_round y"
proof -
  assume xy: "x \<le> y"
  then have fl: "\<lfloor>x\<rfloor> \<le> \<lfloor>y\<rfloor>" by (rule floor_mono)
  have ux: "py_round x \<le> \<lfloor>x\<rfloor> + 1" and ly: "\<lfloor>y\<rfloor> \<le> py_round y"
    by (simp_all add: py_round_def Let_def)
  show ?thesis
  proof (cases "\<lfloor>x\<rfloor> = \<lfloor>y\<rfloor>")
    case True
    with xy show ?thesis by (auto simp: py_round_def Let_def)
  next
    case False
    with fl ux ly show ?thesis by linarith
  qed
qed

lemma py_round_zero: "py_round 0 = 0"
  by (simp add: py_round_def)



lemma py_round_near: "\<bar>of_int (py_round x) - x\<bar> \<le> 1 / 2"
proof -
  have "of_int \<lfloor>x\<rfloor> \<le> x" "x < of_int \<lfloor>x\<rfloor> + 1"
    by linarith+
  then show ?thesis
    by (auto simp: py_round_def Let_def abs_le_iff)
qed


section \<open>The loop and the function without the loop\<close>

lemma loop_body_eq:
  "loop_body a b s st p =
     Inr \<lparr>normalized = normalized st @ [project a b s p],
          profile = profile st @
            [(py_round_ndigits (cumulative_km st
                + great_circle_km (prev_lat st) (prev_lon st) (lat_of p) (lon_of p)) 2,
              py_round (ele_of p))],
          cumulative_km = cumulative_km st
            + great_circle_km (prev_lat st) (prev_lon st) (lat_of p) (lon_of p),
          prev_lat = lat_of p, prev_lon = lon_of p\<rparr>"
  by (cases p) (simp add: haversine_km_eq project_def lat_of_def lon_of_def ele_of_def Let_def)

lemma loop_Inr:
  "\<exists>st'. loop a b s st ps = Inr st'
     \<and> normalized st' = normalized st @ map (project a b s) ps
     \<and> profile st' = profile st @ entries (cumulative_km st) (prev_lat st) (prev_lon st) ps"
proof (induction ps arbitrary: st)
  case Nil
  show ?case by simp
next
  case (Cons p ps)
  show ?case
    using Cons.IH [of "\<lparr>normalized = normalized st @ [project a b s p],
          profile = profile st @
            [(py_round_ndigits (cumulative_km st
                + great_circle_km (prev_lat st) (prev_lon st) (lat_of p) (lon_of p)) 2,
              py_round (ele_of p))],
          cumulative_km = cumulative_km st
            + great_circle_km (prev_lat st) (prev_lon st) (lat_of p) (lon_of p),
          prev_lat = lat_of p, prev_lon = lon_of p\<rparr>"]
    by (simp add: loop_body_eq)
qed

lemma py_min2_eq: "py_min2 a b = min a b"
  by (simp add: py_min2_def min_def)

lemma guarded_div: "(if 0 < r then py_div x r else Inr 1) = Inr (if 0 < r then x / r else 1)"
  by (simp add: py_div_def)

lemma normalize_eq:
  assumes "points \<noteq> []"
  shows "normalize_coordinates points =
     Inr (map (project (Min (set (map lat_of points))) (Min (set (map lon_of points)))
                (scale_of points)) points,
          entries 0 (fst (hd points)) (fst (snd (hd points))) points)"
proof -
  have m: "map (\<lambda>p. fst p) points = map lat_of points"
    "map (\<lambda>p. fst (snd p)) points = map lon_of points"
    by (simp_all add: lat_of_def lon_of_def)
  have ne: "map lat_of points \<noteq> []" "map lon_of points \<noteq> []"
    using assms by simp_all
  obtain st' where st':
    "loop (Min (set (map lat_of points))) (Min (set (map lon_of points))) (scale_of points)
       \<lparr>normalized = [], profile = [], cumulative_km = 0,
        prev_lat = fst (hd points), prev_lon = fst (snd (hd points))\<rparr> points = Inr st'"
    "normalized st' = map (project (Min (set (map lat_of points)))
       (Min (set (map lon_of points))) (scale_of points)) points"
    "profile st' = entries 0 (fst (hd points)) (fst (snd (hd points))) points"
    using loop_Inr [of "Min (set (map lat_of points))" "Min (set (map lon_of points))"
        "scale_of points" "\<lparr>normalized = [], profile = [], cumulative_km = 0,
        prev_lat = fst (hd points), prev_lon = fst (snd (hd points))\<rparr>" points]
    by auto
  show ?thesis
    unfolding normalize_coordinates_def m Let_def
    by (simp only: assms if_False py_min_eq [OF ne(1)] py_max_eq [OF ne(1)]
        py_min_eq [OF ne(2)] py_max_eq [OF ne(2)] sum.case guarded_div py_min2_eq
        st' [unfolded scale_of_def Let_def] scale_of_def Let_def)
qed

lemma length_entries: "length (entries c a b ps) = length ps"
  by (induction ps arbitrary: c a b) simp_all

lemma snd_entries: "map snd (entries c a b ps) = map (\<lambda>p. py_round (ele_of p)) ps"
  by (induction ps arbitrary: c a b) simp_all

lemma fst_entries_nth:
  "i < length ps \<Longrightarrow>
   fst (entries c a b ps ! i) =
     py_round_ndigits (c + great_circle_km a b (lat_of (ps ! 0)) (lon_of (ps ! 0))
       + (\<Sum>k<i. leg ps k)) 2"
proof (induction ps arbitrary: c a b i)
  case Nil
  then show ?case by simp
next
  case (Cons p ps)
  show ?case
  proof (cases i)
    case 0
    then show ?thesis by simp
  next
    case (Suc j)
    with Cons.prems have j: "j < length ps" by simp
    have "(\<Sum>k<Suc j. leg (p # ps) k) = leg (p # ps) 0 + (\<Sum>k<j. leg (p # ps) (Suc k))"
      by (rule sum.lessThan_Suc_shift)
    also have "\<dots> = great_circle_km (lat_of p) (lon_of p) (lat_of (ps ! 0)) (lon_of (ps ! 0))
        + (\<Sum>k<j. leg ps k)"
      by (simp add: leg_def)
    finally show ?thesis
      using Cons.IH [OF j] Suc by (simp add: add.assoc)
  qed
qed

lemma accumulated_sum:
  "accumulated ps i =
     great_circle_km (lat_of (ps ! 0)) (lon_of (ps ! 0)) (lat_of (ps ! 0)) (lon_of (ps ! 0))
     + (\<Sum>k<i. leg ps k)"
  by (induction i) (simp_all add: leg_def)

lemma fst_entries_accumulated:
  "i < length ps \<Longrightarrow>
   fst (entries 0 (lat_of (ps ! 0)) (lon_of (ps ! 0)) ps ! i) = py_round_ndigits (accumulated ps i) 2"
  by (simp add: fst_entries_nth accumulated_sum)




lemma scale_of_pos: "0 < scale_of ps"
  by (simp add: scale_of_def Let_def height_def width_def margin_def)






lemma normalize_closed:
  assumes "points \<noteq> []"
  shows "normalize_coordinates points =
     Inr (map (project (Min (set (map lat_of points))) (Min (set (map lon_of points)))
                (scale_of points)) points,
          entries 0 (lat_of (points ! 0)) (lon_of (points ! 0)) points)"
  using assms by (simp add: normalize_eq hd_conv_nth lat_of_def lon_of_def del: set_map)

section \<open>The path data\<close>

lemma digit_cases: "d < 10 \<Longrightarrow> d \<in> {0, 1, 2, 3, 4, 5, 6, 7, 8, 9 :: nat}"
  by auto

lemma digit_value_digit_char: "d < 10 \<Longrightarrow> digit_value (digit_char d) = d"
  using digit_cases [of d] by (auto simp: digit_char_def digit_value_def)

lemma digit_char_not_L: "d < 10 \<Longrightarrow> digit_char d \<noteq> CHR ''L''"
  using digit_cases [of d] by (auto simp: digit_char_def)

lemma decimal_value_snoc: "decimal_value (s @ [c]) = 10 * decimal_value s + digit_value c"
  by (simp add: decimal_value_def)

lemma decimal_value_str_nat: "decimal_value (str_nat n) = n"
proof (induction n rule: str_nat.induct)
  case (1 n)
  show ?case
  proof (cases "n < 10")
    case True
    then show ?thesis
      by (subst str_nat.simps) (simp add: decimal_value_def digit_value_digit_char)
  next
    case False
    then have "decimal_value (str_nat n) = 10 * decimal_value (str_nat (n div 10)) + n mod 10"
      by (subst str_nat.simps) (simp add: decimal_value_snoc digit_value_digit_char)
    with False "1.IH" show ?thesis by simp
  qed
qed

lemma str_nat_no_L: "CHR ''L'' \<notin> set (str_nat n)"
proof (induction n rule: str_nat.induct)
  case (1 n)
  show ?case
  proof (cases "n < 10")
    case True
    then show ?thesis
      using digit_char_not_L [of n] by (subst str_nat.simps) auto
  next
    case False
    have "n mod 10 < 10" by simp
    then have "digit_char (n mod 10) \<noteq> CHR ''L''" by (rule digit_char_not_L)
    with False "1.IH" show ?thesis
      by (subst str_nat.simps) auto
  qed
qed

lemma str_nat_nonempty: "str_nat n \<noteq> []"
  by (subst str_nat.simps) simp

lemma format_2f_no_L: "CHR ''L'' \<notin> set (format_2f v)"
proof -
  have "digit_char (n mod 100 div 10) \<noteq> CHR ''L''" "digit_char (n mod 10) \<noteq> CHR ''L''" for n :: nat
    by (rule digit_char_not_L, simp add: div_less_iff_less_mult)+
  note h = this this [symmetric]
  show ?thesis
    by (simp add: format_2f_def Let_def str_nat_no_L h)
qed

lemma format_point_no_L: "CHR ''L'' \<notin> set (format_point p)"
  by (cases p) (simp add: format_2f_no_L)

lemma format_2f_two_decimals:
  "\<exists>w c1 c2.
     format_2f v = (if v < 0 then ''-'' else '''') @ w @ ''.'' @ [c1, c2]
     \<and> \<bar>real (decimal_value w) + real (decimal_value [c1, c2]) / 100 - \<bar>v\<bar>\<bar> \<le> 1 / 200"
proof -
  define n where "n = nat (py_round (\<bar>v\<bar> * 100))"
  have "py_round 0 \<le> py_round (\<bar>v\<bar> * 100)"
    by (rule py_round_mono) simp
  then have n: "real n = of_int (py_round (\<bar>v\<bar> * 100))"
    by (simp add: n_def py_round_zero)
  have d: "n mod 100 div 10 < 10" "n mod 10 < 10"
    by (simp_all add: div_less_iff_less_mult)
  have "decimal_value [digit_char (n mod 100 div 10), digit_char (n mod 10)] = n mod 100"
  proof -
    have "decimal_value ([digit_char (n mod 100 div 10)] @ [digit_char (n mod 10)])
        = 10 * (n mod 100 div 10) + n mod 10"
      using d unfolding decimal_value_snoc
      by (simp add: decimal_value_def digit_value_digit_char)
    moreover have "n mod 10 = n mod 100 mod 10"
      by (simp add: mod_mod_cancel)
    moreover have "10 * (n mod 100 div 10) + n mod 100 mod 10 = n mod 100"
      by simp
    ultimately show ?thesis by simp
  qed
  then have val: "real (decimal_value (str_nat (n div 100)))
      + real (decimal_value [digit_char (n mod 100 div 10), digit_char (n mod 10)]) / 100
      = real n / 100"
  proof -
    assume a: "decimal_value [digit_char (n mod 100 div 10), digit_char (n mod 10)] = n mod 100"
    have "real n = real (100 * (n div 100) + n mod 100)" by simp
    also have "\<dots> = 100 * real (n div 100) + real (n mod 100)"
      by (simp only: of_nat_add of_nat_mult of_nat_numeral)
    finally show ?thesis
      by (simp add: a decimal_value_str_nat)
  qed
  have "\<bar>real n - \<bar>v\<bar> * 100\<bar> \<le> 1 / 2"
    unfolding n by (rule py_round_near)
  then have "\<bar>real n / 100 - \<bar>v\<bar>\<bar> \<le> 1 / 200"
    by (simp add: abs_le_iff field_simps)
  then show ?thesis
    unfolding val [symmetric]
    by (intro exI [of _ "str_nat (n div 100)"] exI [of _ "digit_char (n mod 100 div 10)"]
        exI [of _ "digit_char (n mod 10)"]) (simp add: format_2f_def n_def Let_def)
qed

lemma join_Cons: "join sep (s # ss) = s @ concat (map (\<lambda>t. sep @ t) ss)"
  by (induction ss arbitrary: s) simp_all

lemma path_data_Cons:
  "path_data (p # ps) = ''M '' @ format_point p @ concat (map (\<lambda>q. '' L '' @ format_point q) ps)"
  by (simp add: path_data_def join_Cons comp_def)

lemma count_L_segments:
  "length (filter (\<lambda>c. c = CHR ''L'') (concat (map (\<lambda>q. '' L '' @ format_point q) ps))) = length ps"
proof (induction ps)
  case Nil
  show ?case by simp
next
  case (Cons q ps)
  have "filter (\<lambda>c. c = CHR ''L'') (format_point q) = []"
    using format_point_no_L [of q] by (auto simp: filter_empty_conv)
  with Cons show ?case by simp
qed

section \<open>Binary64 arithmetic on known values\<close>

lemma bind_err_simps [simp]: "bind_err (Inl e) f = Inl e" "bind_err (Inr v) f = f v"
  by (simp_all add: bind_err_def)

lemma bind_err_weak_cong: "r = r' \<Longrightarrow> bind_err r f = bind_err r' f"
  by simp

lemmas f64_eval = round_f64_def round_at_def quantum_def floor_log2_ratio_def
  round_half_even_ratio_def shift_left_def canonical_def strip_zeros.simps bit_length.simps

lemmas f64_ops = f64_of_int_def f64_sub_def aligned_def py_min_f64_def py_max_f64_def
  py_min2_f64_def frame_f64_def points_f64_def

lemmas sqrt_eval = sqrt_scaled_def sticky_def isqrt.simps pick_root_def

lemmas radians_eval = M_PI_def degToRad_def radians_f64_def

lemmas libm_eval = math_1_def float_pow_def is_inf_def round_half_even_int_def
  haversine_km_f64_def normalize_coordinates_f64_def

text \<open>The double written \<^verbatim>\<open>0.1\<close> is \<open>3602879701896397 / 2 ^ 55\<close>, and
  \<^verbatim>\<open>0.1 + 0.2\<close> is \<^verbatim>\<open>0.30000000000000004\<close>, that is \<open>1351079888211149 / 2 ^ 52\<close>.\<close>

lemma f64_one_tenth: "round_f64 1 10 0 = Finite 3602879701896397 (- 55)"
  by (simp add: f64_eval)

lemma f64_tenth_plus_fifth:
  "f64_add (round_f64 1 10 0) (round_f64 2 10 0) = Finite 1351079888211149 (- 52)"
  by (simp add: f64_ops f64_eval)

text \<open>A tie among the subnormal numbers goes to the even multiple of \<open>2 ^ (- 1074)\<close>, half
  the smallest double rounds to zero, and the largest double is \<open>(2 ^ 53 - 1) * 2 ^ 971\<close>.\<close>

lemma f64_subnormal_tie: "round_f64 3 1 (- 1075) = Finite 1 (- 1073)"
  by (simp add: f64_eval)

lemma f64_underflow: "round_f64 1 1 (- 1075) = Finite 0 0"
  by (simp add: f64_eval)

text \<open>The square root of 2, and of the double next above 1, which rounds back to 1;
  \<^verbatim>\<open>math.pi\<close> and the factor of \<^verbatim>\<open>math.radians\<close>.\<close>

lemma f64_sqrt_values:
  "f64_sqrt (Finite 1 1) = Inr (Finite 6369051672525773 (- 52))"
  "f64_sqrt (Finite 4503599627370497 (- 52)) = Inr (Finite 1 0)"
  "f64_sqrt (Finite 1 (- 1074)) = Inr (Finite 1 (- 537))"
  by (simp_all add: sqrt_eval f64_eval)

lemma f64_pi_values:
  "M_PI = Finite 884279719003555 (- 48)"
  "degToRad = Inr (Finite 5030569068109113 (- 58))"
  by (simp_all add: radians_eval f64_ops f64_eval)

lemma f64_overflow:
  "round_f64 (2 ^ 54 - 1) 1 970 = PosInf"
  "round_f64 (2 ^ 54 - 3) 1 970 = Finite (2 ^ 52 - 1) 972"
  by (simp_all add: f64_eval)

section \<open>The claims\<close>








text \<open>
  C4. \<open>normalize_coordinates\<close> applied to the empty sample sequence returns two empty
  sequences and no error, and \<open>create_svg\<close> given no point writes no document, hence no
  path.
\<close>

theorem normalize_empty_no_path:
  "normalize_coordinates [] = Inr ([], [])
   \<and> written (create_svg [] output_file prof) = None"
  by (simp add: normalize_coordinates_def create_svg_def)



text \<open>
  In exact arithmetic the two outputs are aligned with the input: for every non-empty
  input of length \<open>N\<close> both have length \<open>N\<close>, entry \<open>i\<close> of the drawing points is the
  projection of sample \<open>i\<close>, and entry \<open>i\<close> of the profile holds the accumulator after
  sample \<open>i\<close> and the elevation of sample \<open>i\<close>, both rounded.
\<close>

theorem normalize_index_aligned:
  assumes "points \<noteq> []"
  shows "\<exists>normalized prof.
     normalize_coordinates points = Inr (normalized, prof)
     \<and> length normalized = length points
     \<and> length prof = length points
     \<and> (\<forall>i < length points.
           normalized ! i = project (Min (set (map lat_of points))) (Min (set (map lon_of points)))
                              (scale_of points) (points ! i)
           \<and> prof ! i = (py_round_ndigits (accumulated points i) 2, py_round (ele_of (points ! i))))"
proof -
  let ?es = "entries 0 (lat_of (points ! 0)) (lon_of (points ! 0)) points"
  have "?es ! i = (py_round_ndigits (accumulated points i) 2, py_round (ele_of (points ! i)))"
    if "i < length points" for i
  proof -
    have "snd (?es ! i) = map snd ?es ! i"
      using that by (simp add: length_entries)
    also have "\<dots> = py_round (ele_of (points ! i))"
      using that by (simp add: snd_entries)
    finally show ?thesis
      using fst_entries_accumulated [OF that] by (simp add: prod_eq_iff)
  qed
  then show ?thesis
    using assms by (simp add: normalize_closed length_entries del: set_map)
qed

theorem normalize_index_aligned_witness:
  "[(0, 0, 7), (1, 2, 5), (1, 1, 3)] \<noteq> ([] :: sample list)
   \<and> (\<exists>normalized prof.
         normalize_coordinates [(0, 0, 7), (1, 2, 5), (1, 1, 3)] = Inr (normalized, prof)
         \<and> length normalized = 3 \<and> length prof = 3
         \<and> normalized ! 2 = (400, 200) \<and> snd (prof ! 2) = 3)"
  using normalize_index_aligned [of "[(0, 0, 7), (1, 2, 5), (1, 1, 3)]"]
  by (auto simp: project_def scale_of_def lat_of_def lon_of_def ele_of_def py_round_def
      width_def height_def margin_def)

text \<open>
  C6. For every non-empty input of length \<open>N\<close>, \<open>normalize_coordinates\<close> returns two
  sequences of length \<open>N\<close>, entry \<open>i\<close> of each belonging to sample \<open>i\<close>. The code does not
  always return. For the samples \<^verbatim>\<open>(-60.5106176, -141.7818726, 0)\<close> and
  \<^verbatim>\<open>(60.5106175, 38.2181274, 0)\<close>, close to antipodal, the argument of the square root in
  \<^verbatim>\<open>haversine_km\<close> is \<open>1 + 2 ^ (- 51)\<close> in binary64, its root is \<open>1 + 2 ^ (- 52)\<close>, and
  \<^verbatim>\<open>math.asin\<close> raises \<^verbatim>\<open>ValueError\<close>: whenever the C library returns the values named in
  the hypotheses, which are the doubles nearest to the exact sines and cosines, the
  function raises and returns nothing.
\<close>

theorem binary64_normalize_raises_near_antipodes:
  assumes "libm_sin L (Finite 0 0) = Finite 0 0"
    and "libm_asin L (Finite 0 0) = Finite 0 0"
    and "libm_pow L (Finite 0 0) (Finite 1 1) = Finite 0 0"
    and "libm_sin L (Finite 1189073597418791 (- 50)) = Finite 7840288962597725 (- 53)"
    and "libm_sin L (Finite 884279719003555 (- 49)) = Finite 1 0"
    and "libm_cos L (Finite (- 4756294393605295) (- 52)) = Finite 8867808598949789 (- 54)"
    and "libm_cos L (Finite 4756294385745031 (- 52)) = Finite 1108476078289695 (- 51)"
    and "libm_pow L (Finite 7840288962597725 (- 53)) (Finite 1 1) = Finite 106633679346615 (- 47)"
    and "libm_pow L (Finite 1 0) (Finite 1 1) = Finite 1 0"
    and "libm_asin L (Finite 4503599627370497 (- 52)) = NaN"
  shows "normalize_coordinates_f64 L
           [(round_f64 (- 605106176) 10000000 0, round_f64 (- 1417818726) 10000000 0, f64_of_int 0),
            (round_f64 605106175 10000000 0, round_f64 382181274 10000000 0, f64_of_int 0)]
         = Inl ValueError"
  using assms
  by (simp add: libm_eval radians_eval f64_ops f64_eval sqrt_eval cong: bind_err_weak_cong)

theorem binary64_normalize_raises_near_antipodes_witness:
  "normalize_coordinates_f64 libm_near_antipodes
     [(round_f64 (- 605106176) 10000000 0, round_f64 (- 1417818726) 10000000 0, f64_of_int 0),
      (round_f64 605106175 10000000 0, round_f64 382181274 10000000 0, f64_of_int 0)]
   = Inl ValueError"
  by (rule binary64_normalize_raises_near_antipodes)
     (simp_all add: libm_near_antipodes_def f64_eval)

text \<open>
  C7. For any two samples of one input where the second has a strictly greater latitude
  and the same longitude, the second sample's \<open>y\<close> is strictly less than the first's.
  This is the statement for exact real arithmetic.
\<close>

theorem normalize_north_is_up:
  assumes "i < length points" and "j < length points"
    and "lat_of (points ! i) < lat_of (points ! j)"
    and "lon_of (points ! i) = lon_of (points ! j)"
  shows "\<exists>normalized prof.
     normalize_coordinates points = Inr (normalized, prof)
     \<and> snd (normalized ! j) < snd (normalized ! i)"
proof -
  from assms(1) have ne: "points \<noteq> []" by auto
  show ?thesis
    using assms scale_of_pos [of points]
    by (simp add: normalize_closed [OF ne] project_def del: set_map)
qed

theorem normalize_north_is_up_witness:
  "0 < length [(48, 2, 35), (49, 2, 40) :: sample]
   \<and> 1 < length [(48, 2, 35), (49, 2, 40) :: sample]
   \<and> lat_of ([(48, 2, 35), (49, 2, 40)] ! 0) < lat_of ([(48, 2, 35), (49, 2, 40)] ! 1)
   \<and> lon_of ([(48, 2, 35), (49, 2, 40)] ! 0) = lon_of ([(48, 2, 35), (49, 2, 40)] ! 1)
   \<and> (\<exists>normalized prof.
         normalize_coordinates [(48, 2, 35), (49, 2, 40)] = Inr (normalized, prof)
         \<and> snd (normalized ! 1) < snd (normalized ! 0))"
proof -
  have h1: "0 < length [(48, 2, 35), (49, 2, 40) :: sample]"
    and h2: "1 < length [(48, 2, 35), (49, 2, 40) :: sample]"
    by simp_all
  have h3: "lat_of ([(48, 2, 35), (49, 2, 40)] ! 0) < lat_of ([(48, 2, 35), (49, 2, 40)] ! 1)"
    and h4: "lon_of ([(48, 2, 35), (49, 2, 40)] ! 0) = lon_of ([(48, 2, 35), (49, 2, 40)] ! 1)"
    by (simp_all add: lat_of_def lon_of_def)
  show ?thesis
    using h1 h2 h3 h4 normalize_north_is_up [OF h1 h2 h3 h4] by blast
qed

text \<open>
  In binary64 arithmetic the two \<open>y\<close> can be equal. The latitudes \<^verbatim>\<open>45.0\<close> and
  \<^verbatim>\<open>45.00000000000001\<close> are the doubles 45 and \<open>45 + 2 ^ (- 47)\<close>; at the same longitude
  the scale is 1, and \<open>580 - 2 ^ (- 47)\<close> rounds to 580, so both points have \<open>y = 580\<close>.
\<close>

theorem binary64_north_not_strictly_up:
  "round_f64 4500000000000001 100000000000000 0 = Finite 6333186975989761 (- 47)
   \<and> f64_lt (f64_of_int 45) (Finite 6333186975989761 (- 47))
   \<and> points_f64 [(f64_of_int 45, f64_of_int 7, f64_of_int 0),
                      (Finite 6333186975989761 (- 47), f64_of_int 7, f64_of_int 0)]
       = Inr [(f64_of_int 20, f64_of_int 580), (f64_of_int 20, f64_of_int 580)]
   \<and> \<not> f64_lt (f64_of_int 580) (f64_of_int 580)"
  by (simp add: f64_ops f64_eval cong: bind_err_weak_cong)



text \<open>
  C9. For every non-empty point sequence the path data is a move-to command for the
  first point followed by one line-to command for each later point, in input order:
  \<open>M p0 L p1 L p2 ...\<close>. The number of \<open>L\<close> is the number of points less one, so no point
  is dropped or merged. Each point is \<open>x,y\<close> with both coordinates in the format \<open>.2f\<close>:
  a sign, digits, a point and two digits, reading as a number at most 0.005 from the
  magnitude of the coordinate.
\<close>

theorem path_data_move_then_lines:
  assumes "points \<noteq> []"
  shows "path_data points =
           ''M '' @ format_point (hd points)
           @ concat (map (\<lambda>p. '' L '' @ format_point p) (tl points))
     \<and> length (filter (\<lambda>c. c = CHR ''L'') (path_data points)) = length points - 1
     \<and> (\<forall>(x, y) \<in> set points.
          format_point (x, y) = format_2f x @ '','' @ format_2f y
          \<and> (\<forall>v \<in> {x, y}. \<exists>w c1 c2.
                format_2f v = (if v < 0 then ''-'' else '''') @ w @ ''.'' @ [c1, c2]
                \<and> \<bar>real (decimal_value w) + real (decimal_value [c1, c2]) / 100 - \<bar>v\<bar>\<bar> \<le> 1 / 200))"
proof -
  obtain p ps where ps: "points = p # ps"
    using assms by (cases points) auto
  have a: "path_data points = ''M '' @ format_point (hd points)
           @ concat (map (\<lambda>p. '' L '' @ format_point p) (tl points))"
    by (simp add: ps path_data_Cons)
  have "filter (\<lambda>c. c = CHR ''L'') (format_point p) = []"
    using format_point_no_L [of p] by (auto simp: filter_empty_conv)
  then have b: "length (filter (\<lambda>c. c = CHR ''L'') (path_data points)) = length points - 1"
    using count_L_segments [of ps] by (simp add: ps path_data_Cons)
  show ?thesis
    using a b format_2f_two_decimals by auto
qed

text \<open>The theorem at three points of which the first two are the same: both are kept.\<close>

theorem path_data_move_then_lines_witness:
  "[(20, 580), (20, 580), (780, 200)] \<noteq> ([] :: drawing_point list)
   \<and> path_data [(20, 580), (20, 580), (780, 200)]
       = ''M 20.00,580.00 L 20.00,580.00 L 780.00,200.00''
   \<and> length (filter (\<lambda>c. c = CHR ''L'') (path_data [(20, 580), (20, 580), (780, 200)])) = 2"
  using path_data_move_then_lines [of "[(20, 580), (20, 580), (780, 200)]"]
  by (simp add: format_2f_def py_round_def digit_char_def str_nat.simps)



end
